theory Spec2Isabelle
  imports Main "HOL-Library.Word"
begin

unbundle bit_operations_syntax

section \<open>Data model of \<^verbatim>\<open>aeron_image.h\<close>\<close>

text \<open>
  The header declares the consumer-side image of a stream and six inline functions on it.
  Machine integers are words of the C type's width: \<^verbatim>\<open>int64_t\<close> is a 64-bit word and
  \<^verbatim>\<open>int32_t\<close> a 32-bit word, both read as two's complement by \<open>sint\<close> and compared
  with the signed orders \<open><s\<close> and \<open>\<le>s\<close>. Arithmetic on words wraps around; a
  theorem that reads a result as a mathematical integer says when the C expression stays
  in range. Pointers are addresses.
\<close>

type_synonym int64_t = "64 word"
type_synonym int32_t = "32 word"
type_synonym size_t = "64 word"
type_synonym ptr = nat

text \<open>
  \<^verbatim>\<open>struct aeron_image_stct\<close>, field by field. The embedded
  \<^verbatim>\<open>aeron_client_command_base_t\<close> is declared in another header, so its type is a
  parameter; no function of this header reads it.
\<close>

record 'cmd aeron_image_t =
  command_base :: 'cmd
  conductor :: ptr
  subscription :: ptr
  log_buffer :: ptr
  subscriber_position :: ptr
  correlation_id :: int64_t
  removal_change_number :: int64_t
  final_position :: int64_t
  refcnt :: int64_t
  session_id :: int32_t
  term_length_mask :: int32_t
  position_bits_to_shift :: size_t
  is_closed :: bool
  is_lingering :: bool

text \<open>
  The message \<^verbatim>\<open>aeron_set_err\<close> is given, by its format and its arguments:
  \<^verbatim>\<open>"%s: %PRId64 position out of range %PRId64-%PRId64"\<close> carries the position, the
  current position and the limit (the spec's InvalidPosition);
  \<^verbatim>\<open>"%s: position not aligned to FRAME_ALIGNMENT"\<close> carries nothing (the spec's
  MisalignedPosition).
\<close>

datatype aeron_errmsg =
    No_message
  | Position_out_of_range int64_t int64_t int64_t
  | Position_not_aligned

text \<open>
  What the functions of the header can read or write: the image their argument points to,
  the \<^verbatim>\<open>int64_t\<close> cells that \<^verbatim>\<open>subscriber_position\<close> points into, the set of
  addresses of live heap blocks (written only by \<^verbatim>\<open>aeron_image_create\<close> and
  \<^verbatim>\<open>aeron_image_delete\<close>), \<^verbatim>\<open>errno\<close>, and the error state that
  \<^verbatim>\<open>aeron_set_err\<close> writes.
\<close>

record 'cmd client_state =
  the_image :: "'cmd aeron_image_t"
  int64_mem :: "ptr \<Rightarrow> int64_t"
  allocated :: "ptr set"
  errno :: int
  aeron_errcode :: int
  aeron_errmsg :: aeron_errmsg

definition EINVAL :: int where
  "EINVAL = 22"

section \<open>Parts declared outside the header\<close>

text \<open>
  Modelled from the spec: \<^verbatim>\<open>aeron_set_err\<close> is declared in \<^verbatim>\<open>util/aeron_error.h\<close>,
  which is not among the sources. The spec's error reporting is a structured error carrying
  an error kind and a message with the offending values: the call records its error code
  and its message.
\<close>

definition aeron_set_err :: "int \<Rightarrow> aeron_errmsg \<Rightarrow> 'cmd client_state \<Rightarrow> 'cmd client_state" where
  "aeron_set_err errcode msg s = s\<lparr>aeron_errcode := errcode, aeron_errmsg := msg\<rparr>"

text \<open>
  Modelled from the spec: the macro \<^verbatim>\<open>AERON_GET_AND_ADD_INT64(original, dst, value)\<close> is
  defined in the atomics header, which is not among the sources. By its name and the spec
  (the count is increased atomically and the value before the increase is returned) it is
  one atomic fetch-and-add: \<open>original\<close> receives the old value of \<open>dst\<close>, and \<open>dst\<close>
  the old value plus \<open>value\<close>, in 64-bit arithmetic. The result is the pair
  (\<open>original\<close>, new \<open>dst\<close>).
\<close>

definition AERON_GET_AND_ADD_INT64 :: "int64_t \<Rightarrow> int64_t \<Rightarrow> int64_t \<times> int64_t" where
  "AERON_GET_AND_ADD_INT64 dst val = (dst, dst + val)"

text \<open>
  Modelled from the spec: the macro \<^verbatim>\<open>AERON_GET_VOLATILE(value, src)\<close> is defined in the
  same missing header; the spec's snapshot is a single atomic read, so \<open>value\<close> receives
  \<open>src\<close>.
\<close>

definition AERON_GET_VOLATILE :: "int64_t \<Rightarrow> int64_t" where
  "AERON_GET_VOLATILE src = src"

text \<open>
  Modelled from the spec: \<^verbatim>\<open>aeron_image_force_close\<close> is only declared in the header
  (line 69); its body is in \<^verbatim>\<open>aeron_image.c\<close>, which is not among the sources. The
  spec: it sets the closed flag, does not touch the reference count and does not
  deallocate.
\<close>

definition aeron_image_force_close :: "'cmd client_state \<Rightarrow> 'cmd client_state" where
  "aeron_image_force_close s = s\<lparr>the_image := (the_image s)\<lparr>is_closed := True\<rparr>\<rparr>"

section \<open>The inline functions of the header\<close>

definition aeron_image_removal_change_number :: "'cmd aeron_image_t \<Rightarrow> int64_t" where
  "aeron_image_removal_change_number img = removal_change_number img"

definition aeron_image_is_in_use_by_subcription :: "'cmd aeron_image_t \<Rightarrow> int64_t \<Rightarrow> bool" where
  "aeron_image_is_in_use_by_subcription img last_change_number =
     (last_change_number <s removal_change_number img)"

text \<open>
  \<^verbatim>\<open>limit_position\<close> of \<^verbatim>\<open>aeron_image_validate_position\<close> (lines 84-85). The
  \<^verbatim>\<open>int32_t\<close> mask is converted to \<^verbatim>\<open>int64_t\<close> by sign extension (\<open>scast\<close>) in both
  places where it is used.
\<close>

definition limit_position :: "int32_t \<Rightarrow> int64_t \<Rightarrow> int64_t" where
  "limit_position term_mask current_position =
     (current_position - (current_position AND scast term_mask)) + scast term_mask + 1"

text \<open>
  \<^verbatim>\<open>aeron_image_validate_position\<close> (lines 81-103). The constant
  \<^verbatim>\<open>AERON_LOGBUFFER_FRAME_ALIGNMENT\<close> is defined in another header, so it is the first
  parameter, a C \<^verbatim>\<open>int\<close>. The result is the returned \<^verbatim>\<open>int\<close> and the state after
  the call.
\<close>

definition aeron_image_validate_position ::
  "int32_t \<Rightarrow> 'cmd client_state \<Rightarrow> int64_t \<Rightarrow> int \<times> 'cmd client_state" where
  "aeron_image_validate_position FRAME_ALIGNMENT s position =
     (let current_position = int64_mem s (subscriber_position (the_image s));
          limit = limit_position (term_length_mask (the_image s)) current_position
      in if position <s current_position \<or> limit <s position then
           (- 1, aeron_set_err EINVAL (Position_out_of_range position current_position limit)
                   (s\<lparr>errno := EINVAL\<rparr>))
         else if 0 \<noteq> position AND scast (FRAME_ALIGNMENT - 1) then
           (- 1, aeron_set_err EINVAL Position_not_aligned (s\<lparr>errno := EINVAL\<rparr>))
         else (0, s))"

text \<open>
  \<^verbatim>\<open>aeron_image_incr_refcnt\<close> and \<^verbatim>\<open>aeron_image_decr_refcnt\<close> (lines 105-119):
  the result is the returned \<^verbatim>\<open>int64_t\<close> and the state after the call.
\<close>

definition aeron_image_incr_refcnt :: "'cmd client_state \<Rightarrow> int64_t \<times> 'cmd client_state" where
  "aeron_image_incr_refcnt s =
     (let (result, dst) = AERON_GET_AND_ADD_INT64 (refcnt (the_image s)) 1
      in (result, s\<lparr>the_image := (the_image s)\<lparr>refcnt := dst\<rparr>\<rparr>))"

definition aeron_image_decr_refcnt :: "'cmd client_state \<Rightarrow> int64_t \<times> 'cmd client_state" where
  "aeron_image_decr_refcnt s =
     (let (result, dst) = AERON_GET_AND_ADD_INT64 (refcnt (the_image s)) (- 1)
      in (result, s\<lparr>the_image := (the_image s)\<lparr>refcnt := dst\<rparr>\<rparr>))"

definition aeron_image_refcnt_volatile :: "'cmd client_state \<Rightarrow> int64_t" where
  "aeron_image_refcnt_volatile s = AERON_GET_VOLATILE (refcnt (the_image s))"

section \<open>Notions the statements use\<close>

text \<open>
  \<^verbatim>\<open>*image->subscriber_position\<close>, the value \<^verbatim>\<open>current_position\<close> of
  \<^verbatim>\<open>aeron_image_validate_position\<close>, and its \<^verbatim>\<open>limit_position\<close>, in a state.
\<close>

definition current_position :: "'cmd client_state \<Rightarrow> int64_t" where
  "current_position s = int64_mem s (subscriber_position (the_image s))"

definition image_limit :: "'cmd client_state \<Rightarrow> int64_t" where
  "image_limit s = limit_position (term_length_mask (the_image s)) (current_position s)"

text \<open>
  The spec's formula for the limit,
  \<^verbatim>\<open>(current - (current & term_length_mask)) + term_length_mask + 1\<close>, over the
  mathematical integers, where nothing overflows.
\<close>

definition spec_limit :: "int \<Rightarrow> int \<Rightarrow> int" where
  "spec_limit term_mask current = (current - (current AND term_mask)) + term_mask + 1"

text \<open>
  The state of the spec's examples: term length 65536 (mask 65535, 16 bits to shift), the
  subscriber position cell at address 0 holding 0, reference count 0, no error recorded.
\<close>

definition example_image :: "unit aeron_image_t" where
  "example_image =
     \<lparr>command_base = (), conductor = 0, subscription = 0, log_buffer = 0,
      subscriber_position = 0, correlation_id = 1, removal_change_number = 5,
      final_position = 0, refcnt = 0, session_id = 1, term_length_mask = 65535,
      position_bits_to_shift = 16, is_closed = False, is_lingering = False\<rparr>"

definition example_state :: "unit client_state" where
  "example_state =
     \<lparr>the_image = example_image, int64_mem = (\<lambda>_. 0), allocated = {},
      errno = 0, aeron_errcode = 0, aeron_errmsg = No_message\<rparr>"

text \<open>
  Calls on the reference count made by any number of threads. Every call is one atomic
  fetch-and-add on \<^verbatim>\<open>image->refcnt\<close>, so an execution is the calls in the order in
  which their fetch-and-adds took effect: a list of calls, run one after the other.
  \<open>observed\<close> lists what \<^verbatim>\<open>aeron_image_refcnt_volatile\<close> returns before the first
  call and after each call; its last element is the final snapshot.
\<close>

datatype refcnt_call = Incr | Decr

definition run_call :: "refcnt_call \<Rightarrow> 'cmd client_state \<Rightarrow> 'cmd client_state" where
  "run_call c s =
     (case c of Incr \<Rightarrow> snd (aeron_image_incr_refcnt s) | Decr \<Rightarrow> snd (aeron_image_decr_refcnt s))"

fun observed :: "'cmd client_state \<Rightarrow> refcnt_call list \<Rightarrow> int64_t list" where
  "observed s [] = [aeron_image_refcnt_volatile s]"
| "observed s (c # cs) = aeron_image_refcnt_volatile s # observed (run_call c s) cs"

text \<open>
  The number of increments less the number of decrements, as a mathematical integer,
  before the first call and after each call, starting from \<open>b\<close>.
\<close>

fun balances :: "int \<Rightarrow> refcnt_call list \<Rightarrow> int list" where
  "balances b [] = [b]"
| "balances b (c # cs) = b # balances (b + (case c of Incr \<Rightarrow> 1 | Decr \<Rightarrow> - 1)) cs"

section \<open>Arithmetic of the limit and of the alignment test\<close>

lemma term_end_or:
  fixes c x :: "'a::ring_bit_operations"
  shows "(c - (c AND x)) + x = c OR x"
proof -
  have "NOT c AND (c AND x) = 0"
    by (simp add: bit_eq_iff bit_simps)
  then have "c - (c AND x) = c AND NOT (c AND x)"
    by (rule disjunctive_diff_eq_and_not)
  also have "\<dots> = c AND NOT x"
    by (auto simp: bit_eq_iff bit_simps)
  finally have d: "c - (c AND x) = c AND NOT x" .
  have "(c AND NOT x) AND x = 0"
    by (simp add: bit_eq_iff bit_simps)
  then have "(c AND NOT x) + x = (c AND NOT x) OR x"
    by (rule disjunctive_add_eq_or)
  also have "\<dots> = c OR x"
    by (auto simp: bit_eq_iff bit_simps)
  finally show ?thesis using d by simp
qed

lemma limit_position_or: "limit_position m c = (c OR scast m) + 1"
  by (simp add: limit_position_def term_end_or)

lemma spec_limit_or: "spec_limit m c = (c OR m) + 1"
  by (simp add: spec_limit_def term_end_or)

lemma sint_scast_mask: "sint (scast (m :: int32_t) :: int64_t) = sint m"
  by (simp add: sint_up_scast is_up)

lemma sint_or_mask: "sint ((c :: int64_t) OR scast (m :: int32_t)) = sint c OR sint m"
  by (simp add: signed_or_eq sint_scast_mask)

lemma sint_succ:
  assumes "sint (w :: int64_t) < 2 ^ 63 - 1"
  shows "sint (w + 1) = sint w + 1"
proof -
  have "- (2 ^ 63) \<le> sint w" using sint_ge [of w] by simp
  with assms show ?thesis
    by (simp add: sint_word_add signed_take_bit_int_eq_self)
qed

lemma sint_pred:
  assumes "- (2 ^ 63) < sint (w :: int64_t)"
  shows "sint (w - 1) = sint w - 1"
proof -
  have "sint w < 2 ^ 63" using sint_lt [of w] by simp
  with assms show ?thesis
    by (simp add: sint_word_diff signed_take_bit_int_eq_self)
qed

text \<open>Where the integer formula stays below \<open>2 ^ 63\<close>, the code computes it.\<close>

lemma sint_limit_position:
  "spec_limit (sint m) (sint c) < 2 ^ 63 \<Longrightarrow>
   sint (limit_position m c) = spec_limit (sint m) (sint c)"
  by (simp add: limit_position_or spec_limit_or sint_succ sint_or_mask)

lemma or_ge_self:
  assumes "0 \<le> (m :: int)"
  shows "c \<le> c OR m"
proof -
  have "c AND (m AND NOT c) = 0" by (simp add: bit_eq_iff bit_simps)
  then have "c + (m AND NOT c) = c OR (m AND NOT c)" by (rule disjunctive_add_eq_or)
  also have "\<dots> = c OR m" by (auto simp: bit_eq_iff bit_simps)
  finally have "c OR m = c + (m AND NOT c)" by simp
  moreover have "0 \<le> m AND NOT c" using assms by simp
  ultimately show ?thesis by simp
qed

text \<open>With a mask that is not negative the limit lies above the current position.\<close>

lemma current_less_limit:
  assumes "0 \<le> sint m" and "spec_limit (sint m) (sint c) < 2 ^ 63"
  shows "sint c < sint (limit_position m c)"
proof -
  have "sint c \<le> sint c OR sint m" using assms(1) by (rule or_ge_self)
  then have "sint c < spec_limit (sint m) (sint c)" by (simp add: spec_limit_or)
  then show ?thesis using assms(2) by (simp add: sint_limit_position)
qed

text \<open>
  The alignment test \<^verbatim>\<open>position & (FRAME_ALIGNMENT - 1)\<close> for an alignment that is a
  power of two representable as a positive \<^verbatim>\<open>int\<close>.
\<close>

lemma and_mask_dvd_sint:
  assumes "k \<le> 64"
  shows "((p :: int64_t) AND mask k = 0) = (2 ^ k dvd sint p)"
proof -
  have "(2::int) ^ k dvd 2 ^ 64" using assms by (rule le_imp_power_dvd)
  then have "(2 ^ k dvd sint p mod 2 ^ 64) = (2 ^ k dvd sint p)"
    by (rule dvd_mod_iff)
  moreover have "uint p = sint p mod 2 ^ 64"
    unfolding uint_sint take_bit_eq_mod by simp
  ultimately have "(2 ^ k dvd uint p) = (2 ^ k dvd sint p)" by simp
  then show ?thesis by (simp flip: and_mask_dvd)
qed

lemma scast_alignment_mask:
  assumes "k < 31"
  shows "(scast ((2 :: int32_t) ^ k - 1) :: int64_t) = mask k"
proof -
  have "(2 :: int32_t) ^ k - 1 = mask k" by (simp add: mask_eq_exp_minus_1)
  moreover have "(scast (mask k :: int32_t) :: int64_t) = mask k"
    using assms by (auto simp: bit_eq_iff bit_simps word_size)
  ultimately show ?thesis by simp
qed

lemma sint_alignment:
  assumes "k < 31"
  shows "sint ((2 :: int32_t) ^ k) = 2 ^ k"
proof -
  have "(2::int) ^ k < 2 ^ 31" using assms by (rule power_strict_increasing) simp
  moreover have "- (2 ^ 31) \<le> (2::int) ^ k"
    by (rule order_trans [of _ 0]) simp_all
  ultimately have "signed_take_bit 31 ((2::int) ^ k) = 2 ^ k"
    by (rule signed_take_bit_int_eq_self [rotated])
  moreover have "sint ((2 :: int32_t) ^ k) = signed_take_bit 31 (2 ^ k)"
    unfolding word_of_int_2p [symmetric] sint_sbintrunc' by simp
  ultimately show ?thesis by simp
qed

lemma alignment_test:
  assumes "FRAME_ALIGNMENT = 2 ^ k" and "k < 31"
  shows "((position :: int64_t) AND scast (FRAME_ALIGNMENT - 1) = 0)
         = (sint (FRAME_ALIGNMENT :: int32_t) dvd sint position)"
  using assms by (simp add: scast_alignment_mask sint_alignment and_mask_dvd_sint)

section \<open>The three outcomes of \<^verbatim>\<open>aeron_image_validate_position\<close>\<close>

lemma validate_out_of_range:
  assumes "sint position < sint (current_position s) \<or> sint (image_limit s) < sint position"
  shows "aeron_image_validate_position FRAME_ALIGNMENT s position =
           (- 1, s\<lparr>errno := EINVAL, aeron_errcode := EINVAL,
                    aeron_errmsg := Position_out_of_range position (current_position s) (image_limit s)\<rparr>)"
  using assms
  by (simp add: aeron_image_validate_position_def current_position_def image_limit_def
      aeron_set_err_def word_sless_alt Let_def)

lemma validate_not_aligned:
  assumes "sint (current_position s) \<le> sint position" and "sint position \<le> sint (image_limit s)"
    and "position AND scast (FRAME_ALIGNMENT - 1) \<noteq> 0"
  shows "aeron_image_validate_position FRAME_ALIGNMENT s position =
           (- 1, s\<lparr>errno := EINVAL, aeron_errcode := EINVAL, aeron_errmsg := Position_not_aligned\<rparr>)"
  using assms
  by (simp add: aeron_image_validate_position_def current_position_def image_limit_def
      aeron_set_err_def word_sless_alt Let_def)

lemma validate_accepted:
  assumes "sint (current_position s) \<le> sint position" and "sint position \<le> sint (image_limit s)"
    and "position AND scast (FRAME_ALIGNMENT - 1) = 0"
  shows "aeron_image_validate_position FRAME_ALIGNMENT s position = (0, s)"
  using assms
  by (simp add: aeron_image_validate_position_def current_position_def image_limit_def
      word_sless_alt Let_def)

lemma example_current: "current_position example_state = 0"
  by (simp add: current_position_def example_state_def)

lemma example_mask: "term_length_mask (the_image example_state) = 65535"
  by (simp add: example_state_def example_image_def)

lemma limit_of_example:
  assumes "term_length_mask (the_image s) = 65535" and "current_position s = 0"
  shows "image_limit s = 65536"
  using assms by (simp add: image_limit_def limit_position_def)

section \<open>Sequences of calls on the reference count\<close>

lemma refcnt_run_call:
  "refcnt (the_image (run_call c s)) = refcnt (the_image s) + (case c of Incr \<Rightarrow> 1 | Decr \<Rightarrow> - 1)"
  by (cases c)
    (simp_all add: run_call_def aeron_image_incr_refcnt_def aeron_image_decr_refcnt_def
      AERON_GET_AND_ADD_INT64_def)

lemma observed_balances:
  "refcnt (the_image s) = word_of_int b \<Longrightarrow> observed s calls = map word_of_int (balances b calls)"
proof (induction calls arbitrary: s b)
  case Nil
  then show ?case by (simp add: aeron_image_refcnt_volatile_def AERON_GET_VOLATILE_def)
next
  case (Cons c cs)
  have "refcnt (the_image (run_call c s)) = word_of_int (b + (case c of Incr \<Rightarrow> 1 | Decr \<Rightarrow> - 1))"
    using Cons.prems by (cases c) (simp_all add: refcnt_run_call)
  then have "observed (run_call c s) cs
      = map word_of_int (balances (b + (case c of Incr \<Rightarrow> 1 | Decr \<Rightarrow> - 1)) cs)"
    by (rule Cons.IH)
  then show ?case
    using Cons.prems by (simp add: aeron_image_refcnt_volatile_def AERON_GET_VOLATILE_def)
qed

lemma balances_not_Nil: "balances b calls \<noteq> []"
  by (cases calls) simp_all

lemma last_balances:
  "last (balances b calls) = b + int (count_list calls Incr) - int (count_list calls Decr)"
proof (induction calls arbitrary: b)
  case Nil
  then show ?case by simp
next
  case (Cons c cs)
  then show ?case by (cases c) (simp_all add: balances_not_Nil)
qed

lemma sint_word_of_int_64:
  assumes "- (2 ^ 63) \<le> b" and "b < 2 ^ 63"
  shows "sint (word_of_int b :: int64_t) = b"
  using assms by (simp add: sint_sbintrunc' signed_take_bit_int_eq_self)

section \<open>Position validation\<close>

text \<open>
  C1. For every state and every requested position, \<^verbatim>\<open>aeron_image_validate_position\<close>
  fails with the out-of-range error (return value \<open>-1\<close>, message carrying the position,
  the current position and the limit) exactly when the position is below the current
  subscriber position or above the limit, the limit being
  \<^verbatim>\<open>(current - (current & mask)) + mask + 1\<close> as the code computes it; that value is
  the integer formula of the spec whenever the formula stays below \<open>2 ^ 63\<close>. A position
  in the closed range from the current position to the limit that is a multiple of the
  frame alignment (a power of two) is accepted: the call returns \<open>0\<close> and changes nothing.
  With term length 65536, frame alignment 32 and current position 0, the positions 0 and
  65536 are accepted and 65568 is rejected as out of range.
\<close>

theorem validate_position_range:
  "((fst (aeron_image_validate_position FRAME_ALIGNMENT s position) = - 1
      \<and> aeron_errmsg (snd (aeron_image_validate_position FRAME_ALIGNMENT s position))
          = Position_out_of_range position (current_position s) (image_limit s))
     \<longleftrightarrow> (sint position < sint (current_position s) \<or> sint (image_limit s) < sint position))
   \<and> (spec_limit (sint (term_length_mask (the_image s))) (sint (current_position s)) < 2 ^ 63 \<longrightarrow>
        sint (image_limit s)
          = spec_limit (sint (term_length_mask (the_image s))) (sint (current_position s)))
   \<and> (FRAME_ALIGNMENT = 2 ^ k \<and> k < 31
        \<and> sint (current_position s) \<le> sint position \<and> sint position \<le> sint (image_limit s)
        \<and> sint FRAME_ALIGNMENT dvd sint position \<longrightarrow>
        aeron_image_validate_position FRAME_ALIGNMENT s position = (0, s))
   \<and> (term_length_mask (the_image s) = 65535 \<and> current_position s = 0 \<longrightarrow>
        aeron_image_validate_position 32 s 0 = (0, s)
        \<and> aeron_image_validate_position 32 s 65536 = (0, s)
        \<and> fst (aeron_image_validate_position 32 s 65568) = - 1
        \<and> aeron_errmsg (snd (aeron_image_validate_position 32 s 65568))
            = Position_out_of_range 65568 0 65536)"
proof (intro conjI impI)
  show "(fst (aeron_image_validate_position FRAME_ALIGNMENT s position) = - 1
      \<and> aeron_errmsg (snd (aeron_image_validate_position FRAME_ALIGNMENT s position))
          = Position_out_of_range position (current_position s) (image_limit s))
     \<longleftrightarrow> (sint position < sint (current_position s) \<or> sint (image_limit s) < sint position)"
  proof (cases "sint position < sint (current_position s) \<or> sint (image_limit s) < sint position")
    case True
    then show ?thesis by (simp add: validate_out_of_range)
  next
    case False
    then have r: "sint (current_position s) \<le> sint position" "sint position \<le> sint (image_limit s)"
      by simp_all
    show ?thesis
    proof (cases "position AND scast (FRAME_ALIGNMENT - 1) = 0")
      case True
      with r False show ?thesis by (simp add: validate_accepted)
    next
      case False
      with r \<open>\<not> (sint position < sint (current_position s) \<or> sint (image_limit s) < sint position)\<close>
      show ?thesis by (simp add: validate_not_aligned)
    qed
  qed
next
  assume "spec_limit (sint (term_length_mask (the_image s))) (sint (current_position s)) < 2 ^ 63"
  then show "sint (image_limit s)
          = spec_limit (sint (term_length_mask (the_image s))) (sint (current_position s))"
    unfolding image_limit_def by (rule sint_limit_position)
next
  assume a: "FRAME_ALIGNMENT = 2 ^ k \<and> k < 31
        \<and> sint (current_position s) \<le> sint position \<and> sint position \<le> sint (image_limit s)
        \<and> sint FRAME_ALIGNMENT dvd sint position"
  then have fa: "FRAME_ALIGNMENT = 2 ^ k" and k: "k < 31"
    and d: "sint FRAME_ALIGNMENT dvd sint position" by blast+
  have "position AND scast (FRAME_ALIGNMENT - 1) = 0"
    using d by (simp only: alignment_test [OF fa k])
  with a show "aeron_image_validate_position FRAME_ALIGNMENT s position = (0, s)"
    by (simp add: validate_accepted)
next
  assume a: "term_length_mask (the_image s) = 65535 \<and> current_position s = 0"
  then have l: "image_limit s = 65536" by (simp add: limit_of_example)
  show "aeron_image_validate_position 32 s 0 = (0, s)"
    using a l by (simp add: validate_accepted)
  show "aeron_image_validate_position 32 s 65536 = (0, s)"
    using a l by (simp add: validate_accepted)
  have o: "aeron_image_validate_position 32 s 65568 =
      (- 1, s\<lparr>errno := EINVAL, aeron_errcode := EINVAL,
               aeron_errmsg := Position_out_of_range 65568 (current_position s) (image_limit s)\<rparr>)"
    by (rule validate_out_of_range) (simp add: a l)
  show "fst (aeron_image_validate_position 32 s 65568) = - 1"
    by (simp add: o)
  show "aeron_errmsg (snd (aeron_image_validate_position 32 s 65568)) = Position_out_of_range 65568 0 65536"
    using a l by (simp add: o)
qed

theorem validate_position_range_witness:
  "term_length_mask (the_image example_state) = 65535
   \<and> current_position example_state = 0
   \<and> spec_limit (sint (term_length_mask (the_image example_state)))
        (sint (current_position example_state)) = 65536
   \<and> sint (image_limit example_state) = 65536
   \<and> sint (current_position example_state) \<le> sint (64 :: int64_t)
   \<and> sint (64 :: int64_t) \<le> sint (image_limit example_state)
   \<and> sint (32 :: int32_t) dvd sint (64 :: int64_t)
   \<and> aeron_image_validate_position 32 example_state 64 = (0, example_state)
   \<and> aeron_image_validate_position 32 example_state 65536 = (0, example_state)
   \<and> fst (aeron_image_validate_position 32 example_state 65568) = - 1"
  using validate_position_range [of 32 example_state 64 5]
  by (simp add: example_current example_mask limit_of_example spec_limit_def)

text \<open>
  C3. The upper bound is inclusive. For every state whose term-length mask is not negative
  (the mask of a term length that is a non-zero power of two) and whose limit is an
  \<^verbatim>\<open>int64_t\<close> (the integer formula stays below \<open>2 ^ 63\<close>; otherwise the first
  offset of the next term is no \<^verbatim>\<open>int64_t\<close> and no position equals it), the limit
  lies above the current subscriber position, and the position equal to the limit, when
  it is a multiple of the frame alignment, is accepted: the call returns \<open>0\<close> and
  changes nothing. With term length 65536, frame alignment 32 and current position 0 the
  limit is 65536, the first offset of the next term, and it is accepted.
\<close>

theorem limit_is_accepted:
  "(0 \<le> sint (term_length_mask (the_image s))
      \<and> spec_limit (sint (term_length_mask (the_image s))) (sint (current_position s)) < 2 ^ 63
      \<and> FRAME_ALIGNMENT = 2 ^ k \<and> k < 31
      \<and> sint FRAME_ALIGNMENT dvd sint (image_limit s) \<longrightarrow>
      sint (current_position s) < sint (image_limit s)
      \<and> aeron_image_validate_position FRAME_ALIGNMENT s (image_limit s) = (0, s))
   \<and> (term_length_mask (the_image s) = 65535 \<and> current_position s = 0 \<longrightarrow>
        image_limit s = 65536 \<and> aeron_image_validate_position 32 s 65536 = (0, s))"
proof (intro conjI impI)
  assume a: "0 \<le> sint (term_length_mask (the_image s))
      \<and> spec_limit (sint (term_length_mask (the_image s))) (sint (current_position s)) < 2 ^ 63
      \<and> FRAME_ALIGNMENT = 2 ^ k \<and> k < 31
      \<and> sint FRAME_ALIGNMENT dvd sint (image_limit s)"
  then have m: "0 \<le> sint (term_length_mask (the_image s))"
    and n: "spec_limit (sint (term_length_mask (the_image s))) (sint (current_position s)) < 2 ^ 63"
    and fa: "FRAME_ALIGNMENT = 2 ^ k" and k: "k < 31"
    and d: "sint FRAME_ALIGNMENT dvd sint (image_limit s)" by blast+
  show lt: "sint (current_position s) < sint (image_limit s)"
    unfolding image_limit_def using m n by (rule current_less_limit)
  have "image_limit s AND scast (FRAME_ALIGNMENT - 1) = 0"
    using d by (simp only: alignment_test [OF fa k])
  with lt show "aeron_image_validate_position FRAME_ALIGNMENT s (image_limit s) = (0, s)"
    by (simp add: validate_accepted)
next
  assume a: "term_length_mask (the_image s) = 65535 \<and> current_position s = 0"
  then show l: "image_limit s = 65536" by (simp add: limit_of_example)
  show "aeron_image_validate_position 32 s 65536 = (0, s)"
    using a l by (simp add: validate_accepted)
qed

theorem limit_is_accepted_witness:
  "0 \<le> sint (term_length_mask (the_image example_state))
   \<and> spec_limit (sint (term_length_mask (the_image example_state))) (sint (current_position example_state)) = 65536
   \<and> sint (32 :: int32_t) dvd sint (image_limit example_state)
   \<and> aeron_image_validate_position 32 example_state (image_limit example_state) = (0, example_state)"
proof -
  have l: "image_limit example_state = 65536"
    using example_mask example_current by (simp add: limit_of_example)
  have h: "0 \<le> sint (term_length_mask (the_image example_state))"
    "spec_limit (sint (term_length_mask (the_image example_state))) (sint (current_position example_state)) = 65536"
    "sint (32 :: int32_t) dvd sint (image_limit example_state)"
    by (simp_all add: example_mask example_current spec_limit_def l)
  then have "spec_limit (sint (term_length_mask (the_image example_state))) (sint (current_position example_state)) < 2 ^ 63"
    by simp
  with h limit_is_accepted [of example_state 32 5] show ?thesis by simp
qed

text \<open>
  C5. For every state and position: a position in the closed range from the current
  position to the limit that is not a multiple of the frame alignment (a power of two) is
  rejected with the alignment error (return value \<open>-1\<close>, message
  \<^verbatim>\<open>position not aligned to FRAME_ALIGNMENT\<close>). The range is tested first: a position
  out of range is rejected with the out-of-range error whatever its alignment. With term
  length 65536, alignment 32 and current position 0, position 31 is rejected as misaligned,
  and position 65569, out of range and misaligned, as out of range.
\<close>

theorem misaligned_position_rejected:
  "(FRAME_ALIGNMENT = 2 ^ k \<and> k < 31
      \<and> sint (current_position s) \<le> sint position \<and> sint position \<le> sint (image_limit s)
      \<and> \<not> sint FRAME_ALIGNMENT dvd sint position \<longrightarrow>
      aeron_image_validate_position FRAME_ALIGNMENT s position
        = (- 1, s\<lparr>errno := EINVAL, aeron_errcode := EINVAL, aeron_errmsg := Position_not_aligned\<rparr>))
   \<and> (sint position < sint (current_position s) \<or> sint (image_limit s) < sint position \<longrightarrow>
        aeron_image_validate_position FRAME_ALIGNMENT s position
          = (- 1, s\<lparr>errno := EINVAL, aeron_errcode := EINVAL,
                     aeron_errmsg := Position_out_of_range position (current_position s) (image_limit s)\<rparr>))
   \<and> (term_length_mask (the_image s) = 65535 \<and> current_position s = 0 \<longrightarrow>
        fst (aeron_image_validate_position 32 s 31) = - 1
        \<and> aeron_errmsg (snd (aeron_image_validate_position 32 s 31)) = Position_not_aligned
        \<and> fst (aeron_image_validate_position 32 s 65569) = - 1
        \<and> aeron_errmsg (snd (aeron_image_validate_position 32 s 65569))
            = Position_out_of_range 65569 0 65536)"
proof (intro conjI impI)
  assume a: "FRAME_ALIGNMENT = 2 ^ k \<and> k < 31
      \<and> sint (current_position s) \<le> sint position \<and> sint position \<le> sint (image_limit s)
      \<and> \<not> sint FRAME_ALIGNMENT dvd sint position"
  then have fa: "FRAME_ALIGNMENT = 2 ^ k" and k: "k < 31"
    and d: "\<not> sint FRAME_ALIGNMENT dvd sint position" by blast+
  have "position AND scast (FRAME_ALIGNMENT - 1) \<noteq> 0"
    using d by (simp only: alignment_test [OF fa k]) simp
  with a show "aeron_image_validate_position FRAME_ALIGNMENT s position
        = (- 1, s\<lparr>errno := EINVAL, aeron_errcode := EINVAL, aeron_errmsg := Position_not_aligned\<rparr>)"
    by (simp add: validate_not_aligned)
next
  assume "sint position < sint (current_position s) \<or> sint (image_limit s) < sint position"
  then show "aeron_image_validate_position FRAME_ALIGNMENT s position
          = (- 1, s\<lparr>errno := EINVAL, aeron_errcode := EINVAL,
                     aeron_errmsg := Position_out_of_range position (current_position s) (image_limit s)\<rparr>)"
    by (rule validate_out_of_range)
next
  assume a: "term_length_mask (the_image s) = 65535 \<and> current_position s = 0"
  then have l: "image_limit s = 65536" by (simp add: limit_of_example)
  have n: "aeron_image_validate_position 32 s 31
      = (- 1, s\<lparr>errno := EINVAL, aeron_errcode := EINVAL, aeron_errmsg := Position_not_aligned\<rparr>)"
    by (rule validate_not_aligned) (simp_all add: a l)
  show "fst (aeron_image_validate_position 32 s 31) = - 1" by (simp add: n)
  show "aeron_errmsg (snd (aeron_image_validate_position 32 s 31)) = Position_not_aligned"
    by (simp add: n)
  have o: "aeron_image_validate_position 32 s 65569 =
      (- 1, s\<lparr>errno := EINVAL, aeron_errcode := EINVAL,
               aeron_errmsg := Position_out_of_range 65569 (current_position s) (image_limit s)\<rparr>)"
    by (rule validate_out_of_range) (simp add: a l)
  show "fst (aeron_image_validate_position 32 s 65569) = - 1" by (simp add: o)
  show "aeron_errmsg (snd (aeron_image_validate_position 32 s 65569)) = Position_out_of_range 65569 0 65536"
    using a l by (simp add: o)
qed

theorem misaligned_position_rejected_witness:
  "sint (current_position example_state) \<le> sint (48 :: int64_t)
   \<and> sint (48 :: int64_t) \<le> sint (image_limit example_state)
   \<and> \<not> sint (32 :: int32_t) dvd sint (48 :: int64_t)
   \<and> fst (aeron_image_validate_position 32 example_state 48) = - 1
   \<and> aeron_errmsg (snd (aeron_image_validate_position 32 example_state 48)) = Position_not_aligned
   \<and> aeron_errmsg (snd (aeron_image_validate_position 32 example_state 31)) = Position_not_aligned
   \<and> aeron_errmsg (snd (aeron_image_validate_position 32 example_state 65569))
       = Position_out_of_range 65569 0 65536"
proof -
  have l: "image_limit example_state = 65536"
    using example_mask example_current by (simp add: limit_of_example)
  have h: "sint (current_position example_state) \<le> sint (48 :: int64_t)"
    "sint (48 :: int64_t) \<le> sint (image_limit example_state)"
    "\<not> sint (32 :: int32_t) dvd sint (48 :: int64_t)"
    by (simp_all add: example_current l)
  with misaligned_position_rejected [of 32 5 example_state 48] example_mask example_current
  show ?thesis by simp
qed

text \<open>
  C9. \<^verbatim>\<open>aeron_image_validate_position\<close> only reads: whether it accepts or rejects, the
  image (every field of it), the memory holding the subscriber position cell and the set
  of live heap blocks are after the call what they were before it, and so is the
  subscriber position it read. (A rejection writes \<^verbatim>\<open>errno\<close> and the recorded error,
  which are no part of the image.)
\<close>

theorem validate_position_frame:
  "the_image (snd (aeron_image_validate_position FRAME_ALIGNMENT s position)) = the_image s
   \<and> int64_mem (snd (aeron_image_validate_position FRAME_ALIGNMENT s position)) = int64_mem s
   \<and> allocated (snd (aeron_image_validate_position FRAME_ALIGNMENT s position)) = allocated s
   \<and> current_position (snd (aeron_image_validate_position FRAME_ALIGNMENT s position))
       = current_position s"
  by (simp add: aeron_image_validate_position_def aeron_set_err_def current_position_def Let_def)

theorem validate_position_frame_witness:
  "the_image (snd (aeron_image_validate_position 32 example_state 65568)) = example_image
   \<and> current_position (snd (aeron_image_validate_position 32 example_state 31)) = 0"
  using validate_position_frame [of 32 example_state 65568]
    validate_position_frame [of 32 example_state 31]
  by (simp add: example_current) (simp add: example_state_def)

section \<open>Use by a subscription\<close>

text \<open>
  C4. For every image and every last-observed change number \<open>n\<close>,
  \<^verbatim>\<open>aeron_image_is_in_use_by_subcription\<close> returns true if and only if the image's
  removal change number is greater than \<open>n\<close> (as signed 64-bit integers); so it returns
  false for every \<open>n\<close> at or above the removal change number. With removal marked at
  change number 5, a snapshot taken at 5 sees false and one taken at 4 sees true.
\<close>

theorem is_in_use_iff:
  "(aeron_image_is_in_use_by_subcription img n \<longleftrightarrow> sint n < sint (removal_change_number img))
   \<and> (sint (removal_change_number img) \<le> sint n \<longrightarrow> \<not> aeron_image_is_in_use_by_subcription img n)
   \<and> (removal_change_number img = 5 \<longrightarrow>
        \<not> aeron_image_is_in_use_by_subcription img 5 \<and> aeron_image_is_in_use_by_subcription img 4)"
  by (simp add: aeron_image_is_in_use_by_subcription_def word_sless_alt)

theorem is_in_use_iff_witness:
  "removal_change_number example_image = 5
   \<and> sint (removal_change_number example_image) \<le> sint (7 :: int64_t)
   \<and> \<not> aeron_image_is_in_use_by_subcription example_image 5
   \<and> aeron_image_is_in_use_by_subcription example_image 4
   \<and> \<not> aeron_image_is_in_use_by_subcription example_image 7"
  using is_in_use_iff [of example_image 7]
  by (simp add: example_image_def)

section \<open>The reference count\<close>

text \<open>
  C6. For every state, \<^verbatim>\<open>aeron_image_incr_refcnt\<close> returns the value the reference
  count had before the call and leaves the count one higher, changing nothing else. The
  addition is the 64-bit one; read as signed integers, the new count is the old count plus
  one whenever the old count is below the largest \<^verbatim>\<open>int64_t\<close>.
\<close>

theorem incr_refcnt_effect:
  "fst (aeron_image_incr_refcnt s) = refcnt (the_image s)
   \<and> snd (aeron_image_incr_refcnt s)
       = s\<lparr>the_image := (the_image s)\<lparr>refcnt := refcnt (the_image s) + 1\<rparr>\<rparr>
   \<and> refcnt (the_image (snd (aeron_image_incr_refcnt s))) = refcnt (the_image s) + 1
   \<and> (sint (refcnt (the_image s)) < 2 ^ 63 - 1 \<longrightarrow>
        sint (refcnt (the_image (snd (aeron_image_incr_refcnt s))))
          = sint (refcnt (the_image s)) + 1)"
  by (simp add: aeron_image_incr_refcnt_def AERON_GET_AND_ADD_INT64_def sint_succ)

theorem incr_refcnt_effect_witness:
  "sint (refcnt (the_image example_state)) < 2 ^ 63 - 1
   \<and> fst (aeron_image_incr_refcnt example_state) = 0
   \<and> sint (refcnt (the_image (snd (aeron_image_incr_refcnt example_state)))) = 1"
  using incr_refcnt_effect [of example_state]
  by (simp add: example_state_def example_image_def)

text \<open>
  C7. For every state, \<^verbatim>\<open>aeron_image_decr_refcnt\<close> returns the value the reference
  count had before the call and leaves the count one lower, changing nothing else; read as
  signed integers, the new count is the old count less one whenever the old count is above
  the smallest \<^verbatim>\<open>int64_t\<close>. Nothing guards against underflow: called on a count of 0 it
  returns 0 and leaves the count at \<open>-1\<close>; the function has no failing outcome.
\<close>

theorem decr_refcnt_effect:
  "fst (aeron_image_decr_refcnt s) = refcnt (the_image s)
   \<and> snd (aeron_image_decr_refcnt s)
       = s\<lparr>the_image := (the_image s)\<lparr>refcnt := refcnt (the_image s) - 1\<rparr>\<rparr>
   \<and> refcnt (the_image (snd (aeron_image_decr_refcnt s))) = refcnt (the_image s) - 1
   \<and> (- (2 ^ 63) < sint (refcnt (the_image s)) \<longrightarrow>
        sint (refcnt (the_image (snd (aeron_image_decr_refcnt s))))
          = sint (refcnt (the_image s)) - 1)
   \<and> (refcnt (the_image s) = 0 \<longrightarrow>
        fst (aeron_image_decr_refcnt s) = 0
        \<and> sint (refcnt (the_image (snd (aeron_image_decr_refcnt s)))) = - 1)"
  by (simp add: aeron_image_decr_refcnt_def AERON_GET_AND_ADD_INT64_def sint_pred)

theorem decr_refcnt_effect_witness:
  "refcnt (the_image example_state) = 0
   \<and> fst (aeron_image_decr_refcnt example_state) = 0
   \<and> sint (refcnt (the_image (snd (aeron_image_decr_refcnt example_state)))) = - 1"
  using decr_refcnt_effect [of example_state]
  by (simp add: example_state_def example_image_def)

text \<open>
  C10. For every state, \<^verbatim>\<open>aeron_image_incr_refcnt\<close> followed by
  \<^verbatim>\<open>aeron_image_decr_refcnt\<close> gives back the state it started from, the reference count
  included, and the decrement returns one more than the increment returned (in 64-bit
  arithmetic; as signed integers whenever the count started below the largest
  \<^verbatim>\<open>int64_t\<close>).
\<close>

theorem incr_decr_round_trip:
  "snd (aeron_image_decr_refcnt (snd (aeron_image_incr_refcnt s))) = s
   \<and> fst (aeron_image_decr_refcnt (snd (aeron_image_incr_refcnt s)))
       = fst (aeron_image_incr_refcnt s) + 1
   \<and> (sint (refcnt (the_image s)) < 2 ^ 63 - 1 \<longrightarrow>
        sint (fst (aeron_image_decr_refcnt (snd (aeron_image_incr_refcnt s))))
          = sint (fst (aeron_image_incr_refcnt s)) + 1)"
  by (simp add: aeron_image_incr_refcnt_def aeron_image_decr_refcnt_def
      AERON_GET_AND_ADD_INT64_def sint_succ)

theorem incr_decr_round_trip_witness:
  "sint (refcnt (the_image example_state)) < 2 ^ 63 - 1
   \<and> snd (aeron_image_decr_refcnt (snd (aeron_image_incr_refcnt example_state))) = example_state
   \<and> sint (fst (aeron_image_decr_refcnt (snd (aeron_image_incr_refcnt example_state))))
       = sint (fst (aeron_image_incr_refcnt example_state)) + 1"
proof -
  have h: "sint (refcnt (the_image example_state)) < 2 ^ 63 - 1"
    by (simp add: example_state_def example_image_def)
  with incr_decr_round_trip [of example_state] show ?thesis by blast
qed

text \<open>
  C2, as amended. Take an image whose reference count is 0 and any sequence of increment
  and decrement calls, \<open>N\<close> increments and \<open>M\<close> decrements, in the order in which their
  atomic updates took effect. The final snapshot is \<open>N - M\<close> in 64-bit arithmetic. If at
  no point of the sequence the decrements so far outnumber the increments so far (every
  decrement releases an earlier increment) and the difference stays below \<open>2 ^ 63\<close>, then
  every snapshot, before the first call, between two calls and after the last, is the
  number of increments so far less the number of decrements so far, so the final snapshot
  is \<open>N - M\<close> as an integer and no snapshot is negative.
\<close>

theorem refcnt_calls_balance:
  "refcnt (the_image s) = 0 \<longrightarrow>
     last (observed s calls)
       = word_of_int (int (count_list calls Incr) - int (count_list calls Decr))
     \<and> ((\<forall>b \<in> set (balances 0 calls). 0 \<le> b \<and> b < 2 ^ 63) \<longrightarrow>
          map sint (observed s calls) = balances 0 calls
          \<and> sint (last (observed s calls))
              = int (count_list calls Incr) - int (count_list calls Decr)
          \<and> (\<forall>v \<in> set (observed s calls). 0 \<le> sint v))"
proof (intro impI conjI)
  assume z: "refcnt (the_image s) = 0"
  then have o: "observed s calls = map word_of_int (balances 0 calls)"
    by (simp add: observed_balances)
  show "last (observed s calls)
       = word_of_int (int (count_list calls Incr) - int (count_list calls Decr))"
    by (simp add: o last_map balances_not_Nil last_balances)
  assume r: "\<forall>b \<in> set (balances 0 calls). 0 \<le> b \<and> b < 2 ^ 63"
  have "map (sint \<circ> (word_of_int :: int \<Rightarrow> int64_t)) (balances 0 calls) = balances 0 calls"
  proof (rule map_idI)
    fix b assume "b \<in> set (balances 0 calls)"
    with r have "0 \<le> b" "b < 2 ^ 63" by simp_all
    then show "(sint \<circ> (word_of_int :: int \<Rightarrow> int64_t)) b = b"
      by (simp add: sint_word_of_int_64)
  qed
  then show m: "map sint (observed s calls) = balances 0 calls"
    by (simp add: o)
  have "sint (last (observed s calls)) = last (map sint (observed s calls))"
    by (simp add: o last_map balances_not_Nil)
  then show "sint (last (observed s calls))
              = int (count_list calls Incr) - int (count_list calls Decr)"
    by (simp add: m last_balances)
  show "\<forall>v \<in> set (observed s calls). 0 \<le> sint v"
  proof
    fix v assume "v \<in> set (observed s calls)"
    then have "sint v \<in> set (map sint (observed s calls))" by simp
    with m r show "0 \<le> sint v" by simp
  qed
qed

theorem refcnt_calls_balance_witness:
  "refcnt (the_image example_state) = 0
   \<and> balances 0 [Incr, Incr, Decr, Decr] = [0, 1, 2, 1, 0]
   \<and> map sint (observed example_state [Incr, Incr, Decr, Decr]) = [0, 1, 2, 1, 0]
   \<and> sint (last (observed example_state [Incr, Incr, Decr, Decr])) = 0"
proof -
  have z: "refcnt (the_image example_state) = 0"
    by (simp add: example_state_def example_image_def)
  have b: "balances 0 [Incr, Incr, Decr, Decr] = [0, 1, 2, 1, 0]"
    by simp
  then have "\<forall>b \<in> set (balances 0 [Incr, Incr, Decr, Decr]). 0 \<le> b \<and> b < 2 ^ 63"
    by simp
  with z refcnt_calls_balance [of example_state "[Incr, Incr, Decr, Decr]"]
  have "map sint (observed example_state [Incr, Incr, Decr, Decr]) = balances 0 [Incr, Incr, Decr, Decr]
    \<and> sint (last (observed example_state [Incr, Incr, Decr, Decr]))
              = int (count_list [Incr, Incr, Decr, Decr] Incr) - int (count_list [Incr, Incr, Decr, Decr] Decr)"
    by blast
  with z b show ?thesis by simp
qed

text \<open>
  C2 as stated fails: nothing keeps the count from going below zero. On a count of 0, one
  decrement and no increment (\<open>N = 0\<close>, \<open>M = 1\<close>) leave a snapshot of \<open>-1\<close>.
\<close>

theorem refcnt_negative_counterexample:
  "refcnt (the_image example_state) = 0
   \<and> observed example_state [Decr] = [0, - 1]
   \<and> sint (last (observed example_state [Decr])) < 0"
  by (simp add: example_state_def example_image_def run_call_def aeron_image_decr_refcnt_def
      aeron_image_refcnt_volatile_def AERON_GET_AND_ADD_INT64_def AERON_GET_VOLATILE_def)

section \<open>Forced closure\<close>

text \<open>
  C8. \<^verbatim>\<open>aeron_image_force_close\<close> is idempotent and changes the closed flag only: after
  one call and after two the image is closed, the second call changes nothing, and the
  reference count and the set of live heap blocks are what they were before the first call.
\<close>

theorem force_close_idempotent:
  "is_closed (the_image (aeron_image_force_close s))
   \<and> is_closed (the_image (aeron_image_force_close (aeron_image_force_close s)))
   \<and> aeron_image_force_close (aeron_image_force_close s) = aeron_image_force_close s
   \<and> refcnt (the_image (aeron_image_force_close s)) = refcnt (the_image s)
   \<and> refcnt (the_image (aeron_image_force_close (aeron_image_force_close s))) = refcnt (the_image s)
   \<and> allocated (aeron_image_force_close s) = allocated s
   \<and> allocated (aeron_image_force_close (aeron_image_force_close s)) = allocated s"
  by (simp add: aeron_image_force_close_def)

theorem force_close_idempotent_witness:
  "\<not> is_closed (the_image example_state)
   \<and> is_closed (the_image (aeron_image_force_close example_state))
   \<and> refcnt (the_image (aeron_image_force_close (aeron_image_force_close example_state))) = 0"
  using force_close_idempotent [of example_state]
  by (simp add: example_state_def example_image_def)

end
